theory Spec2Isabelle
  imports Main "HOL-Library.Word" "HOL-Library.Sublist"
begin

unbundle bit_operations_syntax

section \<open>The whisper-cli Python wrapper: installer and launcher\<close>

text \<open>
  Two source files are embedded:
  \<^item> \<^verbatim>\<open>python-wrapper/whisper_cli/cli.py\<close>: \<^verbatim>\<open>get_whisper_cli_path\<close> and \<^verbatim>\<open>main\<close>
    (the launcher);
  \<^item> \<^verbatim>\<open>python-wrapper/setup.py\<close>: \<^verbatim>\<open>WhisperInstall.download_whisper_binary\<close>
    (the installer).
  Both talk to the operating system only through a handful of library calls
  (\<^verbatim>\<open>os.path.exists\<close>, \<^verbatim>\<open>Path.mkdir\<close>, \<^verbatim>\<open>shutil.copy2\<close>, \<^verbatim>\<open>os.chmod\<close>,
  \<^verbatim>\<open>subprocess.run\<close>, \<^verbatim>\<open>print\<close>). The file system is an explicit state, each
  library call is a function on it that returns either an exception or the new state,
  and what is printed is a list of messages.
\<close>

subsection \<open>Paths, files and exceptions\<close>

text \<open>
  A path is the list of its components, outermost first; the empty list is the root.
  \<^verbatim>\<open>Path(a) / 'b'\<close> and \<^verbatim>\<open>os.path.join(a, 'b')\<close> append a component,
  \<^verbatim>\<open>Path.parent\<close> and \<^verbatim>\<open>os.path.dirname\<close> drop the last one (the parent of the root
  is the root).
\<close>

type_synonym path = "string list"

type_synonym mode = "16 word"

datatype node = Dir | File (content: "8 word list") (perm: mode)

type_synonym filesystem = "path \<Rightarrow> node option"

text \<open>
  The exceptions the library calls raise. All of them are subclasses of Python's
  \<^verbatim>\<open>Exception\<close>, so an \<^verbatim>\<open>except Exception\<close> clause catches every one of them.
\<close>

datatype pyexc =
    FileExistsError
  | FileNotFoundError
  | NotADirectoryError
  | IsADirectoryError
  | PermissionError
  | SameFileError
  | OSError
  | UnicodeEncodeError
  | CalledProcessError int

text \<open>
  The lines the two programs print. The source texts hold emoji, so each line is a
  constructor; the text it stands for:
  \<^item> \<open>ExecutableNotFound\<close>: "Whisper CLI executable not found! Please ensure it is
    installed correctly." (cli.py, line 23)
  \<^item> \<open>UnsupportedPlatform s\<close>: "(warning sign) Unsupported platform: s" (setup.py, line 49)
  \<^item> \<open>UseNpmInstead\<close>: "Please install Node.js and use: npm install -g whisper-ai" (line 50)
  \<^item> \<open>Downloading s\<close>: "(package) Downloading Whisper CLI binary for s..." (line 59)
  \<^item> \<open>CopiedLocalBinary p\<close>: "(check mark) Copied local binary to p" (line 69)
  \<^item> \<open>LocalBinaryNotFound\<close>: "(information) Local binary not found. You'll need to build
    it first with:" (line 71)
  \<^item> \<open>BuildStandaloneHint\<close>: "   npm run build:standalone" (line 72)
  \<^item> \<open>InstalledSuccessfully\<close>: "(check mark) Whisper CLI installed successfully!" (line 79)
  \<^item> \<open>YouCanNowUse\<close>: "(rocket) You can now use: python -m whisper_cli --help" (line 80)
  \<^item> \<open>FailedToDownload e\<close>: "(cross mark) Failed to download Whisper binary: e" (line 83)
  \<^item> \<open>InstallManually\<close>: "Please install manually or use Node.js version" (line 84)
\<close>

datatype msg =
    ExecutableNotFound
  | UnsupportedPlatform string
  | UseNpmInstead
  | Downloading string
  | CopiedLocalBinary path
  | LocalBinaryNotFound
  | BuildStandaloneHint
  | InstalledSuccessfully
  | YouCanNowUse
  | FailedToDownload pyexc
  | InstallManually

text \<open>
  The lines of pure ASCII text. Every other line holds an emoji: \<^verbatim>\<open>print\<close> raises
  \<^verbatim>\<open>UnicodeEncodeError\<close> on it when the encoding of \<^verbatim>\<open>sys.stdout\<close> has no code for
  the emoji (cp1252, latin-1, ASCII) and writes nothing then.
\<close>

fun ascii_line :: "msg \<Rightarrow> bool" where
  "ascii_line ExecutableNotFound = True"
| "ascii_line (UnsupportedPlatform s) = False"
| "ascii_line UseNpmInstead = True"
| "ascii_line (Downloading s) = False"
| "ascii_line (CopiedLocalBinary p) = False"
| "ascii_line LocalBinaryNotFound = False"
| "ascii_line BuildStandaloneHint = True"
| "ascii_line InstalledSuccessfully = False"
| "ascii_line YouCanNowUse = False"
| "ascii_line (FailedToDownload e) = False"
| "ascii_line InstallManually = True"

text \<open>The root directory always exists; every other path is looked up.\<close>

definition node_at :: "filesystem \<Rightarrow> path \<Rightarrow> node option" where
  "node_at fs p = (if p = [] then Some Dir else fs p)"

text \<open>\<^verbatim>\<open>os.path.exists(p)\<close> and \<^verbatim>\<open>Path.exists()\<close>: true of files and of directories.\<close>

definition path_exists :: "filesystem \<Rightarrow> path \<Rightarrow> bool" where
  "path_exists fs p = (node_at fs p \<noteq> None)"

subsection \<open>The launcher (cli.py)\<close>

text \<open>
  The list \<^verbatim>\<open>[cli_path] + sys.argv[1:]\<close> handed to \<^verbatim>\<open>subprocess.run\<close>: its head is the
  program to execute, its tail the arguments.
\<close>

record command =
  program :: path
  arguments :: "string list"

text \<open>
  What the launcher reads from its environment: \<^verbatim>\<open>sys.platform\<close>, the absolute path of
  its own module (\<^verbatim>\<open>os.path.abspath(__file__)\<close>), \<^verbatim>\<open>sys.argv\<close>, the file system, and
  the outcome of running a command to completion: an exception when the process could
  not be started (the path is a directory, the file is not executable), the return
  code of the child otherwise.
\<close>

record launch_env =
  sys_platform :: string
  module_file :: path
  argv :: "string list"
  disk :: filesystem
  run_child :: "command \<Rightarrow> pyexc + int"

text \<open>
  How a Python program ends: it returns from \<^verbatim>\<open>main\<close>, it calls \<^verbatim>\<open>sys.exit(n)\<close>, or
  an exception reaches the top level.
\<close>

datatype outcome = Returned | SystemExit int | Uncaught pyexc

text \<open>
  What a run of the launcher does: the lines it prints, the commands it hands to
  \<^verbatim>\<open>subprocess.run\<close>, the child processes that were started, and how it ends. The one
  line the launcher prints is pure ASCII.
\<close>

record launch_result =
  printed :: "msg list"
  run_calls :: "command list"
  spawned :: "command list"
  outcome :: outcome

text \<open>\<^verbatim>\<open>get_whisper_cli_path\<close>, cli.py lines 7 to 15.\<close>

definition get_whisper_cli_path :: "launch_env \<Rightarrow> path" where
  "get_whisper_cli_path env =
     (let base_dir = butlast (module_file env);
          cli_executable = ''whisper'';
          cli_executable =
            (if take 3 (sys_platform env) = ''win'' then cli_executable @ ''.exe''
             else cli_executable)
      in base_dir @ [cli_executable])"

text \<open>
  \<^verbatim>\<open>main\<close>, cli.py lines 17 to 27. \<^verbatim>\<open>subprocess.run(..., check=True)\<close> raises
  \<^verbatim>\<open>CalledProcessError\<close> when the return code of the child is not zero; nothing in
  \<^verbatim>\<open>main\<close> catches it.
\<close>

definition main :: "launch_env \<Rightarrow> launch_result" where
  "main env =
     (let cli_path = get_whisper_cli_path env in
      if \<not> path_exists (disk env) cli_path then
        \<lparr>printed = [ExecutableNotFound], run_calls = [], spawned = [],
         outcome = SystemExit 1\<rparr>
      else
        let cmd = \<lparr>program = cli_path, arguments = drop 1 (argv env)\<rparr> in
        (case run_child env cmd of
           Inl e \<Rightarrow> \<lparr>printed = [], run_calls = [cmd], spawned = [], outcome = Uncaught e\<rparr>
         | Inr returncode \<Rightarrow>
             if returncode \<noteq> 0 then
               \<lparr>printed = [], run_calls = [cmd], spawned = [cmd],
                outcome = Uncaught (CalledProcessError returncode)\<rparr>
             else \<lparr>printed = [], run_calls = [cmd], spawned = [cmd], outcome = Returned\<rparr>))"

text \<open>
  The exit status of the interpreter: 0 after a normal return, the argument of
  \<^verbatim>\<open>sys.exit\<close>, and 1 after an uncaught exception (the traceback is printed).
\<close>

fun exit_status :: "outcome \<Rightarrow> int" where
  "exit_status Returned = 0"
| "exit_status (SystemExit n) = n"
| "exit_status (Uncaught e) = 1"

subsection \<open>The library calls of the installer\<close>

text \<open>
  \<^verbatim>\<open>os.mkdir(p)\<close>: the path must be free and its parent must be a directory.
\<close>

definition os_mkdir :: "path \<Rightarrow> filesystem \<Rightarrow> pyexc + filesystem" where
  "os_mkdir p fs =
     (case node_at fs p of
        Some n \<Rightarrow> Inl FileExistsError
      | None \<Rightarrow>
          (case node_at fs (butlast p) of
             None \<Rightarrow> Inl FileNotFoundError
           | Some Dir \<Rightarrow> Inr (fs(p \<mapsto> Dir))
           | Some (File c m) \<Rightarrow> Inl NotADirectoryError))"

text \<open>
  \<^verbatim>\<open>Path.mkdir(parents=False, exist_ok=True)\<close>: \<^verbatim>\<open>os.mkdir\<close>, where a missing parent
  is raised again and any other error is swallowed when the path is a directory.
\<close>

definition mkdir_exist_ok :: "path \<Rightarrow> filesystem \<Rightarrow> pyexc + filesystem" where
  "mkdir_exist_ok p fs =
     (case os_mkdir p fs of
        Inr fs' \<Rightarrow> Inr fs'
      | Inl e \<Rightarrow>
          if e = FileNotFoundError then Inl e
          else if node_at fs p = Some Dir then Inr fs
          else Inl e)"

text \<open>
  \<^verbatim>\<open>Path.mkdir(parents=True, exist_ok=True)\<close>, as pathlib writes it: try \<^verbatim>\<open>os.mkdir\<close>;
  when the parent is missing, make the parent the same way and then the directory;
  on any other error, pass if the path is a directory and raise again if not.
\<close>

function mkdir_parents :: "path \<Rightarrow> filesystem \<Rightarrow> pyexc + filesystem" where
  "mkdir_parents p fs =
     (case os_mkdir p fs of
        Inr fs' \<Rightarrow> Inr fs'
      | Inl e \<Rightarrow>
          if e = FileNotFoundError then
            (if p = [] then Inl e
             else (case mkdir_parents (butlast p) fs of
                     Inl e' \<Rightarrow> Inl e'
                   | Inr fs' \<Rightarrow> mkdir_exist_ok p fs'))
          else if node_at fs p = Some Dir then Inr fs
          else Inl e)"
  by pat_completeness auto
termination
  by (relation "measure (\<lambda>(p, fs). length p)") auto

text \<open>
  \<^verbatim>\<open>shutil.copy2(src, dst)\<close>: when \<open>dst\<close> is a directory the file goes into it under
  the last component of \<open>src\<close>; the source must be a regular file, the destination
  must not be the source nor a directory, and its parent must be a directory. The
  copy has the contents and (by \<^verbatim>\<open>copystat\<close>) the permission bits of the source.
\<close>

definition copy2_target :: "path \<Rightarrow> path \<Rightarrow> filesystem \<Rightarrow> path" where
  "copy2_target src dst fs = (if node_at fs dst = Some Dir then dst @ [last src] else dst)"

definition copy2 :: "path \<Rightarrow> path \<Rightarrow> filesystem \<Rightarrow> pyexc + filesystem" where
  "copy2 src dst fs =
     (let dst' = copy2_target src dst fs in
      case node_at fs src of
        None \<Rightarrow> Inl FileNotFoundError
      | Some Dir \<Rightarrow> Inl IsADirectoryError
      | Some (File c m) \<Rightarrow>
          if dst' = src then Inl SameFileError
          else if node_at fs dst' = Some Dir then Inl IsADirectoryError
          else (case node_at fs (butlast dst') of
                  None \<Rightarrow> Inl FileNotFoundError
                | Some Dir \<Rightarrow> Inr (fs(dst' \<mapsto> File c m))
                | Some (File c' m') \<Rightarrow> Inl NotADirectoryError))"

text \<open>
  \<^verbatim>\<open>os.chmod(p, m)\<close>: the path must exist. Directories carry no permission bits in
  this model, so on a directory the call changes nothing.
\<close>

definition chmod :: "path \<Rightarrow> mode \<Rightarrow> filesystem \<Rightarrow> pyexc + filesystem" where
  "chmod p m fs =
     (case node_at fs p of
        None \<Rightarrow> Inl FileNotFoundError
      | Some Dir \<Rightarrow> Inr fs
      | Some (File c m') \<Rightarrow> Inr (fs(p \<mapsto> File c m)))"

text \<open>
  \<^verbatim>\<open>str.lower()\<close> on the ASCII letters (the values of \<^verbatim>\<open>platform.system()\<close> and
  \<^verbatim>\<open>platform.machine()\<close> are ASCII).
\<close>

definition lower_char :: "char \<Rightarrow> char" where
  "lower_char c =
     (case map_of (zip ''ABCDEFGHIJKLMNOPQRSTUVWXYZ'' ''abcdefghijklmnopqrstuvwxyz'') c of
        Some l \<Rightarrow> l
      | None \<Rightarrow> c)"

definition lower :: "string \<Rightarrow> string" where
  "lower s = map lower_char s"

subsection \<open>The installer (setup.py)\<close>

text \<open>
  \<^verbatim>\<open>shutil.copy2\<close> can fail for a reason the file system of this model does not show
  (permissions, a full disk, a busy file). \<open>Refused e\<close>: it raises \<open>e\<close> before it has
  opened the destination. \<open>Interrupted e c m\<close>: it raises \<open>e\<close> after it has opened the
  destination, while writing or in \<^verbatim>\<open>copystat\<close>, and leaves there a regular file with
  the contents \<open>c\<close> and the mode \<open>m\<close>.
\<close>

datatype copy_failure = Refused pyexc | Interrupted pyexc "8 word list" mode

text \<open>
  What the installer reads from its environment: \<^verbatim>\<open>platform.system()\<close>,
  \<^verbatim>\<open>platform.machine()\<close>, the \<^verbatim>\<open>install_lib\<close> directory of the setuptools command
  and the path of setup.py itself (\<^verbatim>\<open>__file__\<close>). The library calls can fail for
  reasons the file system of this model does not show: \<open>mkdir_fault\<close>, \<open>exists_fault\<close>
  and \<open>chmod_fault\<close> hold the exception that \<^verbatim>\<open>Path.mkdir\<close>, \<^verbatim>\<open>Path.exists\<close> (which
  passes \<^verbatim>\<open>PermissionError\<close> on) and \<^verbatim>\<open>os.chmod\<close> raise then, \<open>copy_fault\<close> holds the
  failure of \<^verbatim>\<open>shutil.copy2\<close>, and \<open>None\<close> says there is no such reason.
  \<open>stdout_encodes m\<close> says whether the encoding of \<^verbatim>\<open>sys.stdout\<close> has a code for
  every character of the line \<open>m\<close>; it is asked of the lines with an emoji only.
\<close>

record install_env =
  platform_system :: string
  platform_machine :: string
  install_lib :: path
  setup_file :: path
  mkdir_fault :: "pyexc option"
  exists_fault :: "pyexc option"
  copy_fault :: "copy_failure option"
  chmod_fault :: "pyexc option"
  stdout_encodes :: "msg \<Rightarrow> bool"

text \<open>The calls the installer makes to the file system, in the order it makes them.\<close>

datatype oscall =
    Mkdir path
  | Exists path
  | Copy2 path path
  | Chmod path mode

record world =
  fs :: filesystem
  calls :: "oscall list"
  stdout :: "msg list"

text \<open>
  \<^verbatim>\<open>print(m)\<close>. The result is the exception raised, if any, and the world after the
  call. The text is encoded as a whole before any of it is written, so a line that
  cannot be encoded leaves the output as it was.
\<close>

definition print :: "install_env \<Rightarrow> msg \<Rightarrow> world \<Rightarrow> pyexc option \<times> world" where
  "print env m w =
     (if ascii_line m \<or> stdout_encodes env m then (None, w\<lparr>stdout := stdout w @ [m]\<rparr>)
      else (Some UnicodeEncodeError, w))"

text \<open>
  One statement after another: the second runs in the world the first leaves, unless
  the first raised.
\<close>

definition and_then ::
  "pyexc option \<times> world \<Rightarrow> (world \<Rightarrow> pyexc option \<times> world) \<Rightarrow> pyexc option \<times> world" where
  "and_then r k = (case r of (None, w) \<Rightarrow> k w | (Some e, w) \<Rightarrow> (Some e, w))"

definition called :: "oscall \<Rightarrow> world \<Rightarrow> world" where
  "called c w = w\<lparr>calls := calls w @ [c]\<rparr>"

text \<open>
  \<^verbatim>\<open>Path.mkdir\<close> and \<^verbatim>\<open>os.chmod\<close> as the installer calls them: the call is logged,
  then it raises the fault of the environment if there is one, and acts on the file
  system otherwise. A call that raises is taken to have written nothing.
\<close>

definition syscall ::
  "oscall \<Rightarrow> pyexc option \<Rightarrow> (filesystem \<Rightarrow> pyexc + filesystem) \<Rightarrow> world
     \<Rightarrow> pyexc option \<times> world" where
  "syscall c fault f w =
     (let w' = called c w in
      case fault of
        Some e \<Rightarrow> (Some e, w')
      | None \<Rightarrow> (case f (fs w') of Inl e \<Rightarrow> (Some e, w') | Inr fs' \<Rightarrow> (None, w'\<lparr>fs := fs'\<rparr>)))"

text \<open>
  \<^verbatim>\<open>local_binary.exists()\<close>: the call is logged; it raises the fault of the environment
  if there is one and answers from the file system otherwise.
\<close>

definition look_up :: "install_env \<Rightarrow> path \<Rightarrow> world \<Rightarrow> (pyexc + bool) \<times> world" where
  "look_up env p w =
     (let w' = called (Exists p) w in
      case exists_fault env of
        Some e \<Rightarrow> (Inl e, w')
      | None \<Rightarrow> (Inr (path_exists (fs w') p), w'))"

text \<open>
  \<^verbatim>\<open>shutil.copy2(src, dst)\<close> as the installer calls it. A copy the file system does not
  allow raises and writes nothing; one the environment refuses does the same; one
  the environment interrupts raises and leaves a file at the destination.
\<close>

definition call_copy2 :: "install_env \<Rightarrow> path \<Rightarrow> path \<Rightarrow> world \<Rightarrow> pyexc option \<times> world" where
  "call_copy2 env src dst w =
     (let w' = called (Copy2 src dst) w in
      case copy2 src dst (fs w') of
        Inl e \<Rightarrow> (Some e, w')
      | Inr fs' \<Rightarrow>
          (case copy_fault env of
             None \<Rightarrow> (None, w'\<lparr>fs := fs'\<rparr>)
           | Some (Refused e) \<Rightarrow> (Some e, w')
           | Some (Interrupted e c m) \<Rightarrow>
               (Some e, w'\<lparr>fs := (fs w')(copy2_target src dst (fs w') \<mapsto> File c m)\<rparr>)))"

text \<open>
  The platform table, setup.py lines 39 to 51: the artifact name and the executable
  name, or \<open>None\<close> on the \<^verbatim>\<open>else\<close> branch.
\<close>

definition select_binary :: "string \<Rightarrow> (string \<times> string) option" where
  "select_binary system =
     (if system = ''windows'' then Some (''whisper-win.exe'', ''whisper.exe'')
      else if system = ''darwin'' then Some (''whisper-macos'', ''whisper'')
      else if system = ''linux'' then Some (''whisper-linux'', ''whisper'')
      else None)"

text \<open>
  The install directory, setup.py line 54: \<^verbatim>\<open>Path(self.install_lib) / 'whisper_cli' / 'bin'\<close>.
\<close>

definition install_dir :: "install_env \<Rightarrow> path" where
  "install_dir env = install_lib env @ [''whisper_cli'', ''bin'']"

text \<open>
  The source artifact, setup.py line 66:
  \<^verbatim>\<open>Path(__file__).parent.parent / 'dist' / binary_name\<close>.
\<close>

definition local_binary :: "install_env \<Rightarrow> string \<Rightarrow> path" where
  "local_binary env binary_name = butlast (butlast (setup_file env)) @ [''dist'', binary_name]"

text \<open>
  Line 55, \<^verbatim>\<open>install_dir.mkdir(parents=True, exist_ok=True)\<close>.
\<close>

definition make_install_dir :: "install_env \<Rightarrow> world \<Rightarrow> pyexc option \<times> world" where
  "make_install_dir env w =
     syscall (Mkdir (install_dir env)) (mkdir_fault env) (mkdir_parents (install_dir env)) w"

text \<open>
  The body of the \<^verbatim>\<open>try\<close> block, setup.py lines 62 to 80. The result is the exception
  raised inside the block, if any, and the world at that moment. The \<^verbatim>\<open>return\<close> of
  line 73 ends the method normally. Line 63 builds a URL that nothing reads; it is left
  out. The mode \<^verbatim>\<open>0o755\<close> is 493.
\<close>

definition try_block ::
  "install_env \<Rightarrow> string \<Rightarrow> string \<Rightarrow> path \<Rightarrow> world \<Rightarrow> pyexc option \<times> world" where
  "try_block env system binary_name binary_path w =
     (let src = local_binary env binary_name in
      case look_up env src w of
        (Inl e, w1) \<Rightarrow> (Some e, w1)
      | (Inr found, w1) \<Rightarrow>
          if found then
            and_then (call_copy2 env src binary_path w1) (\<lambda>w2.
            and_then (print env (CopiedLocalBinary binary_path) w2) (\<lambda>w3.
            and_then (if system \<noteq> ''windows''
                      then syscall (Chmod binary_path 493) (chmod_fault env)
                             (chmod binary_path 493) w3
                      else (None, w3)) (\<lambda>w4.
            and_then (print env InstalledSuccessfully w4) (\<lambda>w5.
            print env YouCanNowUse w5))))
          else
            and_then (print env LocalBinaryNotFound w1) (\<lambda>w2.
            print env BuildStandaloneHint w2))"

text \<open>
  The \<^verbatim>\<open>except Exception\<close> clause of lines 82 to 84, applied to what the \<^verbatim>\<open>try\<close> block
  did: nothing when the block raised nothing, the two prints when it raised. What the
  two prints raise is not caught.
\<close>

definition except_clause :: "install_env \<Rightarrow> pyexc option \<times> world \<Rightarrow> pyexc option \<times> world" where
  "except_clause env r =
     (case r of
        (None, w3) \<Rightarrow> (None, w3)
      | (Some e, w3) \<Rightarrow>
          and_then (print env (FailedToDownload e) w3) (\<lambda>w4.
          print env InstallManually w4))"

text \<open>
  \<^verbatim>\<open>WhisperInstall.download_whisper_binary\<close>, setup.py lines 33 to 84. The result is
  the exception that leaves the method (\<open>None\<close> when it returns) and the world it
  leaves behind. The prints of lines 49 and 59 and the \<^verbatim>\<open>mkdir\<close> of line 55 stand
  before the \<^verbatim>\<open>try\<close> of line 61. \<open>machine\<close> (line 36) is bound and never read.
  \<^verbatim>\<open>WhisperInstall.run\<close> calls this method last, after the standard installation, and
  catches nothing: an exception that leaves the method leaves \<^verbatim>\<open>run\<close> too.
\<close>

definition download_whisper_binary :: "install_env \<Rightarrow> world \<Rightarrow> pyexc option \<times> world" where
  "download_whisper_binary env w =
     (let system = lower (platform_system env);
          machine = lower (platform_machine env)
      in
      case select_binary system of
        None \<Rightarrow>
          and_then (print env (UnsupportedPlatform system) w) (\<lambda>w1.
          print env UseNpmInstead w1)
      | Some (binary_name, executable_name) \<Rightarrow>
          and_then (make_install_dir env w) (\<lambda>w1.
          let binary_path = install_dir env @ [executable_name] in
          and_then (print env (Downloading system) w1) (\<lambda>w2.
          except_clause env (try_block env system binary_name binary_path w2))))"

subsection \<open>Example environments\<close>

text \<open>
  A child process that runs to completion and returns the code \<open>n\<close>, whatever the
  command.
\<close>

definition child_returning :: "int \<Rightarrow> command \<Rightarrow> pyexc + int" where
  "child_returning n cmd = Inr n"

text \<open>
  A site-packages directory \<^verbatim>\<open>/site\<close> into which the package \<^verbatim>\<open>whisper_cli\<close> has been
  copied, and nothing else.
\<close>

definition site_packages :: filesystem where
  "site_packages =
     [[''site''] \<mapsto> Dir,
      [''site'', ''whisper_cli''] \<mapsto> Dir,
      [''site'', ''whisper_cli'', ''cli.py''] \<mapsto> File [112, 121] 420]"

text \<open>
  The same, beside a checkout \<^verbatim>\<open>/repo\<close> whose \<^verbatim>\<open>dist\<close> directory holds the Linux
  artifact (four bytes, mode \<^verbatim>\<open>0o644\<close>).
\<close>

definition built_repo :: filesystem where
  "built_repo =
     site_packages
       ([''repo''] \<mapsto> Dir,
        [''repo'', ''dist''] \<mapsto> Dir,
        [''repo'', ''dist'', ''whisper-linux''] \<mapsto> File [127, 69, 76, 70] 420)"

text \<open>
  The site-packages directory after an earlier installation: \<^verbatim>\<open>bin/whisper\<close> is
  there, and no checkout with an artifact is.
\<close>

definition installed_before :: filesystem where
  "installed_before =
     site_packages
       ([''site'', ''whisper_cli'', ''bin''] \<mapsto> Dir,
        [''site'', ''whisper_cli'', ''bin'', ''whisper''] \<mapsto> File [1, 2, 3] 493)"

text \<open>
  The site-packages directory beside the built checkout, with a directory \<^verbatim>\<open>bin\<close>
  that an earlier installation by another user has left.
\<close>

definition bin_not_writable :: filesystem where
  "bin_not_writable = built_repo([''site'', ''whisper_cli'', ''bin''] \<mapsto> Dir)"

text \<open>
  The site-packages directory with an executable where the launcher looks for it.
\<close>

definition beside_launcher :: filesystem where
  "beside_launcher =
     site_packages([''site'', ''whisper_cli'', ''whisper''] \<mapsto> File [127, 69, 76, 70] 493)"

text \<open>
  The checkout with all three artifacts built, beside the site-packages directory.
\<close>

definition built_all :: filesystem where
  "built_all =
     built_repo
       ([''repo'', ''dist'', ''whisper-win.exe''] \<mapsto> File [77, 90] 420,
        [''repo'', ''dist'', ''whisper-macos''] \<mapsto> File [207, 250, 237, 254] 420)"

text \<open>
  The site-packages directory with a file that is not executable (mode \<^verbatim>\<open>0o644\<close>)
  where the launcher looks for the executable.
\<close>

definition not_executable :: filesystem where
  "not_executable =
     site_packages([''site'', ''whisper_cli'', ''whisper''] \<mapsto> File [127, 69, 76, 70] 420)"

text \<open>A command the operating system refuses to start, with the exception \<open>e\<close>.\<close>

definition child_refused :: "pyexc \<Rightarrow> command \<Rightarrow> pyexc + int" where
  "child_refused e cmd = Inl e"

text \<open>
  Two standard outputs: one whose encoding has a code for every character (UTF-8),
  one whose encoding has none for the emoji (cp1252, latin-1, ASCII).
\<close>

definition unicode_stdout :: "msg \<Rightarrow> bool" where
  "unicode_stdout m = True"

definition narrow_stdout :: "msg \<Rightarrow> bool" where
  "narrow_stdout m = False"

text \<open>
  An installation from \<^verbatim>\<open>/repo/python-wrapper/setup.py\<close> into \<^verbatim>\<open>/site\<close> on the platform
  whose \<^verbatim>\<open>platform.system()\<close> is \<open>s\<close>, with the faults of \<^verbatim>\<open>mkdir\<close>, \<^verbatim>\<open>copy2\<close> and
  \<^verbatim>\<open>chmod\<close> and the standard output given; the look-up never fails.
\<close>

definition install_on ::
  "string \<Rightarrow> pyexc option \<Rightarrow> copy_failure option \<Rightarrow> pyexc option \<Rightarrow> (msg \<Rightarrow> bool)
     \<Rightarrow> install_env" where
  "install_on s fm fc fp enc =
     \<lparr>platform_system = s, platform_machine = ''x86_64'',
      install_lib = [''site''],
      setup_file = [''repo'', ''python-wrapper'', ''setup.py''],
      mkdir_fault = fm, exists_fault = None, copy_fault = fc, chmod_fault = fp,
      stdout_encodes = enc\<rparr>"

text \<open>On Linux, with a UTF-8 standard output.\<close>

definition linux_install ::
  "pyexc option \<Rightarrow> copy_failure option \<Rightarrow> pyexc option \<Rightarrow> install_env" where
  "linux_install fm fc fp = install_on ''Linux'' fm fc fp unicode_stdout"

text \<open>On a platform the table does not hold, with a UTF-8 standard output.\<close>

definition freebsd_install :: install_env where
  "freebsd_install = install_on ''FreeBSD'' None None None unicode_stdout"

text \<open>A world with the given file system, before the installer has done anything.\<close>

definition start :: "filesystem \<Rightarrow> world" where
  "start d = \<lparr>fs = d, calls = [], stdout = []\<rparr>"

text \<open>
  The launcher installed in \<^verbatim>\<open>/site/whisper_cli\<close>, run on Linux as
  \<^verbatim>\<open>whisper scan --fix\<close> on the file system \<open>d\<close>, with a child that returns \<open>n\<close>.
\<close>

definition linux_launch :: "filesystem \<Rightarrow> int \<Rightarrow> launch_env" where
  "linux_launch d n =
     \<lparr>sys_platform = ''linux'',
      module_file = [''site'', ''whisper_cli'', ''cli.py''],
      argv = [''whisper'', ''scan'', ''--fix''],
      disk = d,
      run_child = child_returning n\<rparr>"

text \<open>
  The same launcher on the file system \<open>d\<close>, where the operating system refuses to
  start the command and \<^verbatim>\<open>subprocess.run\<close> raises \<open>e\<close>.
\<close>

definition linux_refused :: "filesystem \<Rightarrow> pyexc \<Rightarrow> launch_env" where
  "linux_refused d e =
     \<lparr>sys_platform = ''linux'',
      module_file = [''site'', ''whisper_cli'', ''cli.py''],
      argv = [''whisper'', ''scan'', ''--fix''],
      disk = d,
      run_child = child_refused e\<rparr>"

section \<open>The launcher\<close>

lemma launch_path_linux:
  "get_whisper_cli_path (linux_launch d n) = [''site'', ''whisper_cli'', ''whisper'']"
  by (simp add: get_whisper_cli_path_def linux_launch_def)

lemma beside_launcher_exists:
  "path_exists beside_launcher [''site'', ''whisper_cli'', ''whisper'']"
  by (simp add: path_exists_def node_at_def beside_launcher_def)

lemma site_packages_no_binary:
  "\<not> path_exists site_packages [''site'', ''whisper_cli'', ''whisper'']"
  by (simp add: path_exists_def node_at_def site_packages_def)

text \<open>
  C5, as stated, fails: the launcher installed in \<^verbatim>\<open>/site/whisper_cli\<close> finds a file
  at the resolved path, but the file is not executable. \<^verbatim>\<open>subprocess.run\<close> raises
  \<^verbatim>\<open>PermissionError\<close>, which nothing catches, and no child process is spawned.
\<close>

theorem launcher_forwards_arguments_counterexample:
  "path_exists (disk (linux_refused not_executable PermissionError))
     (get_whisper_cli_path (linux_refused not_executable PermissionError))
   \<and> spawned (main (linux_refused not_executable PermissionError)) = []
   \<and> outcome (main (linux_refused not_executable PermissionError)) = Uncaught PermissionError"
  by (simp add: main_def get_whisper_cli_path_def linux_refused_def child_refused_def
        path_exists_def node_at_def not_executable_def Let_def)

text \<open>
  C5, amended. When the resolved binary path exists, the launcher hands exactly one
  command to \<^verbatim>\<open>subprocess.run\<close>: its program is the resolved path and its arguments are
  \<^verbatim>\<open>sys.argv[1:]\<close>, the arguments after the launcher's own program name, in their
  order, none dropped and none added. When the process can be started, that command
  is the one child process spawned; when it cannot, no child process is spawned and
  the exception of \<^verbatim>\<open>subprocess.run\<close> ends the launcher.
\<close>

theorem launcher_forwards_arguments:
  assumes "path_exists (disk env) (get_whisper_cli_path env)"
  shows "run_calls (main env) =
           [\<lparr>program = get_whisper_cli_path env, arguments = drop 1 (argv env)\<rparr>]
         \<and> (case run_child env
                   \<lparr>program = get_whisper_cli_path env, arguments = drop 1 (argv env)\<rparr> of
               Inr returncode \<Rightarrow>
                 spawned (main env) =
                   [\<lparr>program = get_whisper_cli_path env, arguments = drop 1 (argv env)\<rparr>]
             | Inl e \<Rightarrow> spawned (main env) = [] \<and> outcome (main env) = Uncaught e)"
  using assms by (simp add: main_def Let_def split: sum.split)

theorem launcher_forwards_arguments_witness:
  "path_exists (disk (linux_launch beside_launcher 0))
     (get_whisper_cli_path (linux_launch beside_launcher 0))
   \<and> run_calls (main (linux_launch beside_launcher 0)) =
       [\<lparr>program = [''site'', ''whisper_cli'', ''whisper''],
         arguments = [''scan'', ''--fix'']\<rparr>]
   \<and> spawned (main (linux_launch beside_launcher 0)) =
       [\<lparr>program = [''site'', ''whisper_cli'', ''whisper''],
         arguments = [''scan'', ''--fix'']\<rparr>]"
proof -
  have present: "path_exists (disk (linux_launch beside_launcher 0))
                   (get_whisper_cli_path (linux_launch beside_launcher 0))"
    using beside_launcher_exists by (simp add: launch_path_linux) (simp add: linux_launch_def)
  have child: "run_child (linux_launch beside_launcher 0) cmd = Inr 0" for cmd
    by (simp add: linux_launch_def child_returning_def)
  from launcher_forwards_arguments [OF present] present child show ?thesis
    by (simp add: launch_path_linux) (simp add: linux_launch_def)
qed

text \<open>
  C6. When the resolved binary path does not exist, the launcher prints the one
  diagnostic, hands no command to \<^verbatim>\<open>subprocess.run\<close>, spawns no child process and ends
  through \<^verbatim>\<open>sys.exit(1)\<close>: its exit status is 1.
\<close>

theorem launcher_missing_binary:
  assumes "\<not> path_exists (disk env) (get_whisper_cli_path env)"
  shows "printed (main env) = [ExecutableNotFound]
         \<and> run_calls (main env) = []
         \<and> spawned (main env) = []
         \<and> outcome (main env) = SystemExit 1
         \<and> exit_status (outcome (main env)) = 1"
  using assms by (simp add: main_def Let_def)

theorem launcher_missing_binary_witness:
  "\<not> path_exists (disk (linux_launch site_packages 0))
       (get_whisper_cli_path (linux_launch site_packages 0))
   \<and> printed (main (linux_launch site_packages 0)) = [ExecutableNotFound]
   \<and> run_calls (main (linux_launch site_packages 0)) = []
   \<and> spawned (main (linux_launch site_packages 0)) = []
   \<and> exit_status (outcome (main (linux_launch site_packages 0))) = 1"
proof -
  have absent: "\<not> path_exists (disk (linux_launch site_packages 0))
                    (get_whisper_cli_path (linux_launch site_packages 0))"
    using site_packages_no_binary by (simp add: launch_path_linux) (simp add: linux_launch_def)
  from launcher_missing_binary [OF absent] absent show ?thesis
    by simp
qed

text \<open>
  C2, as stated, fails: with the binary present and a child that returns 2, the
  launcher raises \<^verbatim>\<open>CalledProcessError\<close> and the interpreter exits with status 1,
  not 2.
\<close>

theorem launcher_exit_status_counterexample:
  "path_exists (disk (linux_launch beside_launcher 2))
     (get_whisper_cli_path (linux_launch beside_launcher 2))
   \<and> run_child (linux_launch beside_launcher 2)
       \<lparr>program = get_whisper_cli_path (linux_launch beside_launcher 2),
        arguments = drop 1 (argv (linux_launch beside_launcher 2))\<rparr> = Inr 2
   \<and> outcome (main (linux_launch beside_launcher 2)) = Uncaught (CalledProcessError 2)
   \<and> exit_status (outcome (main (linux_launch beside_launcher 2))) = 1
   \<and> exit_status (outcome (main (linux_launch beside_launcher 2))) \<noteq> 2"
proof -
  have present: "path_exists (disk (linux_launch beside_launcher 2))
                   (get_whisper_cli_path (linux_launch beside_launcher 2))"
    using beside_launcher_exists by (simp add: launch_path_linux) (simp add: linux_launch_def)
  have child: "run_child (linux_launch beside_launcher 2) cmd = Inr 2" for cmd
    by (simp add: linux_launch_def child_returning_def)
  from present child show ?thesis
    by (simp add: main_def Let_def)
qed

text \<open>
  C2, amended. When the resolved binary exists and the child runs to completion with
  return code \<open>N\<close>, the launcher returns normally and exits with status 0 if \<open>N\<close> is 0;
  otherwise \<^verbatim>\<open>CalledProcessError\<close> reaches the top level and the exit status is 1. So
  a failing child makes the launcher fail, with status 1 whatever \<open>N\<close> was.
\<close>

theorem launcher_exit_status:
  assumes "path_exists (disk env) (get_whisper_cli_path env)"
    and "run_child env \<lparr>program = get_whisper_cli_path env, arguments = drop 1 (argv env)\<rparr>
           = Inr N"
  shows "outcome (main env) = (if N = 0 then Returned else Uncaught (CalledProcessError N))
         \<and> exit_status (outcome (main env)) = (if N = 0 then 0 else 1)"
  using assms by (simp add: main_def Let_def)

theorem launcher_exit_status_witness:
  "path_exists (disk (linux_launch beside_launcher 3))
     (get_whisper_cli_path (linux_launch beside_launcher 3))
   \<and> run_child (linux_launch beside_launcher 3)
       \<lparr>program = get_whisper_cli_path (linux_launch beside_launcher 3),
        arguments = drop 1 (argv (linux_launch beside_launcher 3))\<rparr> = Inr 3
   \<and> outcome (main (linux_launch beside_launcher 3)) = Uncaught (CalledProcessError 3)
   \<and> exit_status (outcome (main (linux_launch beside_launcher 3))) = 1"
proof -
  have present: "path_exists (disk (linux_launch beside_launcher 3))
                   (get_whisper_cli_path (linux_launch beside_launcher 3))"
    using beside_launcher_exists by (simp add: launch_path_linux) (simp add: linux_launch_def)
  have child: "run_child (linux_launch beside_launcher 3)
                 \<lparr>program = get_whisper_cli_path (linux_launch beside_launcher 3),
                  arguments = drop 1 (argv (linux_launch beside_launcher 3))\<rparr> = Inr 3"
    by (simp add: linux_launch_def child_returning_def)
  from launcher_exit_status [OF present child] present child show ?thesis
    by simp
qed

section \<open>The library calls\<close>

declare mkdir_parents.simps [simp del]

lemma os_mkdir_Inr:
  "os_mkdir p d = Inr d' \<Longrightarrow> d' = d(p \<mapsto> Dir) \<and> d p = None \<and> p \<noteq> []"
  by (auto simp: os_mkdir_def node_at_def split: option.splits node.splits if_splits)

lemma mkdir_exist_ok_Inr:
  "mkdir_exist_ok p d = Inr d' \<Longrightarrow>
     (d' = d \<and> node_at d p = Some Dir) \<or> (d' = d(p \<mapsto> Dir) \<and> d p = None \<and> p \<noteq> [])"
  by (auto simp: mkdir_exist_ok_def dest: os_mkdir_Inr split: sum.splits if_splits)

lemma prefix_butlast: "prefix q (butlast p) \<Longrightarrow> prefix q p"
  by (metis prefix_order.order_trans prefixeq_butlast)

text \<open>
  A successful \<open>mkdir_parents p\<close> changes the file system only at paths that were free
  and lead to \<open>p\<close>, and there it puts directories.
\<close>

lemma mkdir_parents_frame:
  "mkdir_parents p d = Inr d' \<Longrightarrow>
     d' q = d q \<or> (d q = None \<and> d' q = Some Dir \<and> prefix q p \<and> q \<noteq> [])"
proof (induction p d arbitrary: d' rule: mkdir_parents.induct)
  case (1 p d)
  show ?case
  proof (cases "os_mkdir p d")
    case (Inr d1)
    with "1.prems" have "d' = d1"
      by (subst (asm) mkdir_parents.simps) simp
    with Inr os_mkdir_Inr [of p d d1] show ?thesis by auto
  next
    case (Inl e)
    show ?thesis
    proof (cases "e = FileNotFoundError")
      case False
      with Inl "1.prems" have "d' = d"
        by (subst (asm) mkdir_parents.simps) (simp split: if_splits)
      then show ?thesis by simp
    next
      case True
      with Inl "1.prems" have ne: "p \<noteq> []"
        by (subst (asm) mkdir_parents.simps) auto
      from True Inl "1.prems" ne obtain d1 where
        up: "mkdir_parents (butlast p) d = Inr d1" and here: "mkdir_exist_ok p d1 = Inr d'"
        by (subst (asm) mkdir_parents.simps) (auto split: sum.splits)
      from "1.IH" [OF Inl True ne up]
      have ih: "d1 q = d q \<or> (d q = None \<and> d1 q = Some Dir \<and> prefix q (butlast p) \<and> q \<noteq> [])" .
      from mkdir_exist_ok_Inr [OF here]
      have step: "d' = d1 \<or> (d' = d1(p \<mapsto> Dir) \<and> d1 p = None \<and> p \<noteq> [])" by auto
      from ih step show ?thesis
        by (cases "q = p") (auto dest: prefix_butlast)
    qed
  qed
qed

lemma mkdir_parents_dir:
  "mkdir_parents p d = Inr d' \<Longrightarrow> node_at d' p = Some Dir"
proof (induction p d arbitrary: d' rule: mkdir_parents.induct)
  case (1 p d)
  show ?case
  proof (cases "os_mkdir p d")
    case (Inr d1)
    with "1.prems" have "d' = d1"
      by (subst (asm) mkdir_parents.simps) simp
    with Inr os_mkdir_Inr [of p d d1] show ?thesis by (auto simp: node_at_def)
  next
    case (Inl e)
    show ?thesis
    proof (cases "e = FileNotFoundError")
      case False
      with Inl "1.prems" show ?thesis
        by (subst (asm) mkdir_parents.simps) (simp split: if_splits)
    next
      case True
      with Inl "1.prems" have ne: "p \<noteq> []"
        by (subst (asm) mkdir_parents.simps) auto
      from True Inl "1.prems" ne obtain d1 where here: "mkdir_exist_ok p d1 = Inr d'"
        by (subst (asm) mkdir_parents.simps) (auto split: sum.splits)
      from mkdir_exist_ok_Inr [OF here] show ?thesis
        by (auto simp: node_at_def)
    qed
  qed
qed

lemma mkdir_parents_elsewhere:
  "mkdir_parents p d = Inr d' \<Longrightarrow> \<not> prefix q p \<Longrightarrow> d' q = d q"
  using mkdir_parents_frame [of p d d' q] by auto

lemma mkdir_parents_keeps:
  "mkdir_parents p d = Inr d' \<Longrightarrow> d q = Some n \<Longrightarrow> d' q = Some n"
  using mkdir_parents_frame [of p d d' q] by auto

lemma copy2_elsewhere:
  "copy2 src dst d = Inr d' \<Longrightarrow> q \<noteq> dst \<Longrightarrow> q \<noteq> dst @ [last src] \<Longrightarrow> d' q = d q"
  by (auto simp: copy2_def copy2_target_def Let_def split: option.splits node.splits if_splits)

lemma chmod_elsewhere:
  "chmod p m d = Inr d' \<Longrightarrow> q \<noteq> p \<Longrightarrow> d' q = d q"
  by (auto simp: chmod_def split: option.splits node.splits)


lemma mkdir_parents_unchanged:
  assumes "mkdir_parents p d = Inr d'"
  shows "(d' = d) = (node_at d p = Some Dir)"
proof
  assume "d' = d"
  with mkdir_parents_dir [OF assms] show "node_at d p = Some Dir" by simp
next
  assume dir: "node_at d p = Some Dir"
  then have "os_mkdir p d = Inl FileExistsError"
    by (simp add: os_mkdir_def)
  with assms dir show "d' = d"
    by (subst (asm) mkdir_parents.simps) simp
qed

lemma copy2_target_cases:
  "copy2_target src dst d = dst \<or> copy2_target src dst d = dst @ [last src]"
  by (simp add: copy2_target_def)

lemma syscall_calls:
  "calls (snd (syscall c fault f w)) = calls w @ [c]"
  by (simp add: syscall_def called_def Let_def split: option.split sum.split)

lemma syscall_stdout:
  "stdout (snd (syscall c fault f w)) = stdout w"
  by (simp add: syscall_def called_def Let_def split: option.split sum.split)

lemma syscall_elsewhere:
  assumes "\<And>d d'. f d = Inr d' \<Longrightarrow> d' q = d q"
  shows "fs (snd (syscall c fault f w)) q = fs w q"
  using assms
  by (auto simp: syscall_def called_def Let_def split: option.split sum.split)

lemma call_copy2_calls:
  "calls (snd (call_copy2 env src dst w)) = calls w @ [Copy2 src dst]"
  by (simp add: call_copy2_def called_def Let_def
        split: sum.split option.split copy_failure.split)

lemma call_copy2_elsewhere:
  assumes "q \<noteq> dst" and "q \<noteq> dst @ [last src]"
  shows "fs (snd (call_copy2 env src dst w)) q = fs w q"
proof -
  have t: "copy2_target src dst (fs w) \<noteq> q"
    using copy2_target_cases [of src dst "fs w"] assms by auto
  have c: "copy2 src dst (fs w) = Inr d' \<Longrightarrow> d' q = fs w q" for d'
    using copy2_elsewhere [OF _ assms] by blast
  show ?thesis
    using t c
    by (auto simp: call_copy2_def called_def Let_def
          split: sum.split option.split copy_failure.split)
qed

lemma look_up_frame:
  "calls (snd (look_up env p w)) = calls w @ [Exists p]"
  "fs (snd (look_up env p w)) = fs w"
  "stdout (snd (look_up env p w)) = stdout w"
  by (simp_all add: look_up_def called_def Let_def split: option.split)

lemma print_frame:
  "calls (snd (print env m w)) = calls w"
  "fs (snd (print env m w)) = fs w"
  by (simp_all add: print_def)

lemma print_ok:
  "ascii_line m \<or> stdout_encodes env m \<Longrightarrow>
     print env m w = (None, w\<lparr>stdout := stdout w @ [m]\<rparr>)"
  by (simp add: print_def)

lemma print_fails:
  "\<not> ascii_line m \<Longrightarrow> \<not> stdout_encodes env m \<Longrightarrow> print env m w = (Some UnicodeEncodeError, w)"
  by (simp add: print_def)

lemma and_then_simps:
  "and_then (None, w) k = k w"
  "and_then (Some e, w) k = (Some e, w)"
  by (simp_all add: and_then_def)

text \<open>
  What holds of the calls and of a path of the file system after each statement of a
  sequence holds after the sequence.
\<close>

lemma and_then_calls:
  assumes "\<And>v. prefix (calls v) (calls (snd (k v)))"
  shows "prefix (calls (snd r)) (calls (snd (and_then r k)))"
  using assms by (cases r; cases "fst r") (auto simp: and_then_def)

lemma and_then_elsewhere:
  assumes "\<And>v. fs (snd (k v)) q = fs v q"
  shows "fs (snd (and_then r k)) q = fs (snd r) q"
  using assms by (cases r; cases "fst r") (auto simp: and_then_def)

lemma mode_755_executable: "(493 :: mode) AND 73 = 73"
  by simp

section \<open>The steps of the installer\<close>

lemma select_binary_Some:
  "select_binary s = Some (bn, en) \<Longrightarrow>
     (s = ''windows'' \<and> bn = ''whisper-win.exe'' \<and> en = ''whisper.exe'')
     \<or> (s = ''darwin'' \<and> bn = ''whisper-macos'' \<and> en = ''whisper'')
     \<or> (s = ''linux'' \<and> bn = ''whisper-linux'' \<and> en = ''whisper'')"
  by (auto simp: select_binary_def split: if_splits)

text \<open>The artifact and the installed executable never have the same file name.\<close>

lemma artifact_is_not_target:
  assumes "select_binary s = Some (bn, en)"
  shows "local_binary env bn \<noteq> install_dir env @ [en]"
proof
  assume "local_binary env bn = install_dir env @ [en]"
  then have "last (local_binary env bn) = last (install_dir env @ [en])" by simp
  then have "bn = en" by (simp add: local_binary_def)
  with select_binary_Some [OF assms] show False by auto
qed

lemma target_not_prefix: "\<not> prefix (install_dir env @ [x]) (install_dir env)"
  by (simp add: prefix_def)

lemma make_install_dir_calls:
  "calls (snd (make_install_dir env w)) = calls w @ [Mkdir (install_dir env)]"
  by (simp add: make_install_dir_def syscall_calls)

lemma make_install_dir_stdout:
  "stdout (snd (make_install_dir env w)) = stdout w"
  by (simp add: make_install_dir_def syscall_stdout)

lemma make_install_dir_ok:
  assumes "fst (make_install_dir env w) = None"
  shows "mkdir_fault env = None
         \<and> mkdir_parents (install_dir env) (fs w) = Inr (fs (snd (make_install_dir env w)))"
  using assms
  by (auto simp: make_install_dir_def syscall_def called_def Let_def split: option.splits sum.splits)

lemma make_install_dir_is_dir:
  assumes "fst (make_install_dir env w) = None"
  shows "node_at (fs (snd (make_install_dir env w))) (install_dir env) = Some Dir"
  using make_install_dir_ok [OF assms] mkdir_parents_dir by blast

lemma make_install_dir_target:
  assumes "fst (make_install_dir env w) = None"
  shows "fs (snd (make_install_dir env w)) (install_dir env @ [x]) = fs w (install_dir env @ [x])"
  using make_install_dir_ok [OF assms] mkdir_parents_elsewhere target_not_prefix by blast

lemma make_install_dir_keeps:
  assumes "fst (make_install_dir env w) = None" and "fs w q = Some n"
  shows "fs (snd (make_install_dir env w)) q = Some n"
  using make_install_dir_ok [OF assms(1)] mkdir_parents_keeps assms(2) by blast

lemma make_install_dir_unchanged:
  assumes "fst (make_install_dir env w) = None"
  shows "(fs (snd (make_install_dir env w)) = fs w) = (node_at (fs w) (install_dir env) = Some Dir)"
  using make_install_dir_ok [OF assms] mkdir_parents_unchanged by blast

text \<open>
  Line 67 looks for the artifact after line 55 has made the directory. Unless the
  artifact path leads to the install directory, it finds what was there before.
\<close>

lemma artifact_check_initial:
  assumes "fst (make_install_dir env w) = None" and "\<not> prefix q (install_dir env)"
  shows "path_exists (fs (snd (make_install_dir env w))) q = path_exists (fs w) q"
  using make_install_dir_ok [OF assms(1)]
    mkdir_parents_elsewhere [of "install_dir env" "fs w" _ q] assms(2)
  by (auto simp: path_exists_def node_at_def)

lemma calls_and_then:
  assumes "prefix xs (calls (snd r))" and "\<And>v. prefix (calls v) (calls (snd (k v)))"
  shows "prefix xs (calls (snd (and_then r k)))"
  using assms(1) and_then_calls [of k r, OF assms(2)] by (rule prefix_order.order_trans)

lemma elsewhere_and_then:
  assumes "fs (snd r) q = x" and "\<And>v. fs (snd (k v)) q = fs v q"
  shows "fs (snd (and_then r k)) q = x"
  using assms(1) and_then_elsewhere [of k q r, OF assms(2)] by simp

lemma try_block_calls:
  "prefix (calls w @ [Exists (local_binary env bn)]) (calls (snd (try_block env s bn p w)))"
proof -
  let ?src = "local_binary env bn"
  obtain r1 w1 where lu: "look_up env ?src w = (r1, w1)" by (cases "look_up env ?src w") auto
  with look_up_frame(1) [of env ?src w] have c1: "calls w1 = calls w @ [Exists ?src]" by simp
  show ?thesis
  proof (cases r1)
    case (Inl e)
    with lu c1 show ?thesis by (simp add: try_block_def Let_def)
  next
    case (Inr found)
    have "prefix (calls w1)
            (calls (snd (and_then (call_copy2 env ?src p w1) (\<lambda>w2.
               and_then (print env (CopiedLocalBinary p) w2) (\<lambda>w3.
               and_then (if s \<noteq> ''windows''
                         then syscall (Chmod p 493) (chmod_fault env) (chmod p 493) w3
                         else (None, w3)) (\<lambda>w4.
               and_then (print env InstalledSuccessfully w4) (\<lambda>w5.
               print env YouCanNowUse w5)))))))"
      by (intro calls_and_then) (simp_all add: call_copy2_calls print_frame syscall_calls)
    moreover have "prefix (calls w1)
            (calls (snd (and_then (print env LocalBinaryNotFound w1) (\<lambda>w2.
               print env BuildStandaloneHint w2))))"
      by (intro calls_and_then) (simp_all add: print_frame)
    ultimately show ?thesis
      using lu Inr c1 by (simp add: try_block_def Let_def)
  qed
qed

lemma try_block_elsewhere:
  assumes "\<not> prefix p q"
  shows "fs (snd (try_block env s bn p w)) q = fs w q"
proof -
  let ?src = "local_binary env bn"
  obtain r1 w1 where lu: "look_up env ?src w = (r1, w1)" by (cases "look_up env ?src w") auto
  with look_up_frame(2) [of env ?src w] have f1: "fs w1 = fs w" by simp
  from assms have ne: "q \<noteq> p" "q \<noteq> p @ [last ?src]" by auto
  have ch: "fs (snd (syscall (Chmod p 493) (chmod_fault env) (chmod p 493) v)) q = fs v q" for v
    by (rule syscall_elsewhere) (rule chmod_elsewhere [OF _ ne(1)])
  show ?thesis
  proof (cases r1)
    case (Inl e)
    with lu f1 show ?thesis by (simp add: try_block_def Let_def)
  next
    case (Inr found)
    have "fs (snd (and_then (call_copy2 env ?src p w1) (\<lambda>w2.
               and_then (print env (CopiedLocalBinary p) w2) (\<lambda>w3.
               and_then (if s \<noteq> ''windows''
                         then syscall (Chmod p 493) (chmod_fault env) (chmod p 493) w3
                         else (None, w3)) (\<lambda>w4.
               and_then (print env InstalledSuccessfully w4) (\<lambda>w5.
               print env YouCanNowUse w5)))))) q = fs w1 q"
      by (intro elsewhere_and_then) (simp_all add: call_copy2_elsewhere [OF ne] print_frame ch)
    moreover have "fs (snd (and_then (print env LocalBinaryNotFound w1) (\<lambda>w2.
               print env BuildStandaloneHint w2))) q = fs w1 q"
      by (intro elsewhere_and_then) (simp_all add: print_frame)
    ultimately show ?thesis
      using lu Inr f1 by (simp add: try_block_def Let_def)
  qed
qed

text \<open>The \<^verbatim>\<open>except\<close> clause prints and touches nothing else.\<close>

lemma except_clause_frame:
  "calls (snd (except_clause env r)) = calls (snd r)"
  "fs (snd (except_clause env r)) = fs (snd r)"
  by (cases r; cases "fst r"; simp add: except_clause_def and_then_def print_def split: prod.split)+

lemma except_clause_None:
  "fst r = None \<Longrightarrow> except_clause env r = r"
  by (cases r) (simp add: except_clause_def)

text \<open>The three ways through the method.\<close>

lemma download_unsupported:
  assumes "select_binary (lower (platform_system env)) = None"
  shows "download_whisper_binary env w =
           and_then (print env (UnsupportedPlatform (lower (platform_system env))) w)
             (\<lambda>w1. print env UseNpmInstead w1)"
  using assms by (simp add: download_whisper_binary_def Let_def)

lemma download_mkdir_raises:
  assumes "select_binary (lower (platform_system env)) = Some (bn, en)"
    and "fst (make_install_dir env w) = Some e"
  shows "download_whisper_binary env w = (Some e, snd (make_install_dir env w))"
  using assms
  by (cases "make_install_dir env w") (simp add: download_whisper_binary_def Let_def and_then_def)

lemma download_supported:
  assumes "select_binary (lower (platform_system env)) = Some (bn, en)"
    and "fst (make_install_dir env w) = None"
  shows "download_whisper_binary env w =
           and_then (print env (Downloading (lower (platform_system env)))
                       (snd (make_install_dir env w)))
             (\<lambda>w2. except_clause env
                      (try_block env (lower (platform_system env)) bn (install_dir env @ [en]) w2))"
  using assms
  by (cases "make_install_dir env w") (simp add: download_whisper_binary_def Let_def and_then_def)

lemma download_calls_first:
  assumes sel: "select_binary (lower (platform_system env)) = Some (bn, en)"
  shows "prefix (calls w @ [Mkdir (install_dir env)]) (calls (snd (download_whisper_binary env w)))"
proof (cases "fst (make_install_dir env w)")
  case (Some e)
  from download_mkdir_raises [OF sel Some] show ?thesis
    by (simp add: make_install_dir_calls)
next
  case None
  have "prefix (calls v) (calls (snd (try_block env s bn p v)))" for v s p
    using try_block_calls [of v env bn s p] by (auto simp: prefix_def)
  then have "prefix (calls (snd (make_install_dir env w)))
          (calls (snd (download_whisper_binary env w)))"
    unfolding download_supported [OF sel None]
    by (intro calls_and_then) (simp_all add: print_frame except_clause_frame)
  then show ?thesis by (simp add: make_install_dir_calls)
qed

lemma download_calls_second:
  assumes sel: "select_binary (lower (platform_system env)) = Some (bn, en)"
    and mk: "fst (make_install_dir env w) = None"
    and enc: "stdout_encodes env (Downloading (lower (platform_system env)))"
  shows "prefix (calls w @ [Mkdir (install_dir env), Exists (local_binary env bn)])
           (calls (snd (download_whisper_binary env w)))"
proof -
  let ?s = "lower (platform_system env)"
  let ?w1 = "snd (make_install_dir env w)"
  let ?w2 = "?w1\<lparr>stdout := stdout ?w1 @ [Downloading ?s]\<rparr>"
  have "download_whisper_binary env w =
          except_clause env (try_block env ?s bn (install_dir env @ [en]) ?w2)"
    unfolding download_supported [OF sel mk] using enc
    by (simp add: print_ok and_then_simps)
  moreover have "calls ?w2 = calls w @ [Mkdir (install_dir env)]"
    by (simp add: make_install_dir_calls)
  ultimately show ?thesis
    using try_block_calls [of ?w2 env bn ?s "install_dir env @ [en]"]
    by (simp add: except_clause_frame)
qed

lemma download_keeps_dir:
  assumes sel: "select_binary (lower (platform_system env)) = Some (bn, en)"
    and mk: "fst (make_install_dir env w) = None"
  shows "node_at (fs (snd (download_whisper_binary env w))) (install_dir env) = Some Dir"
proof -
  have "fs (snd (download_whisper_binary env w)) (install_dir env)
          = fs (snd (make_install_dir env w)) (install_dir env)"
    unfolding download_supported [OF sel mk]
    by (intro elsewhere_and_then)
       (simp_all add: print_frame except_clause_frame try_block_elsewhere [OF target_not_prefix])
  with make_install_dir_is_dir [OF mk] show ?thesis
    by (simp add: node_at_def install_dir_def)
qed

lemma download_calls_unsupported:
  "(calls (snd (download_whisper_binary env w)) = calls w)
     = (select_binary (lower (platform_system env)) = None)"
proof (cases "select_binary (lower (platform_system env))")
  case None
  then show ?thesis
    by (simp add: download_unsupported and_then_def print_def)
next
  case (Some names)
  obtain bn en where names: "names = (bn, en)" by (cases names)
  from download_calls_first [of env bn en w] Some names
  have "prefix (calls w @ [Mkdir (install_dir env)]) (calls (snd (download_whisper_binary env w)))"
    by simp
  then have "calls (snd (download_whisper_binary env w)) \<noteq> calls w"
    by (auto simp: prefix_def)
  with Some show ?thesis by simp
qed


lemma try_block_absent:
  assumes "exists_fault env = None" and "\<not> path_exists (fs w) (local_binary env bn)"
  shows "try_block env s bn p w =
           and_then (print env LocalBinaryNotFound (called (Exists (local_binary env bn)) w))
             (\<lambda>w2. print env BuildStandaloneHint w2)"
  using assms by (simp add: try_block_def look_up_def Let_def called_def)


lemma download_absent:
  assumes sel: "select_binary (lower (platform_system env)) = Some (bn, en)"
    and mk: "fst (make_install_dir env w) = None"
    and enc: "stdout_encodes env (Downloading (lower (platform_system env)))"
    and lu: "exists_fault env = None"
    and absent: "\<not> path_exists (fs (snd (make_install_dir env w))) (local_binary env bn)"
  shows "calls (snd (download_whisper_binary env w)) =
           calls w @ [Mkdir (install_dir env), Exists (local_binary env bn)]"
    and "fs (snd (download_whisper_binary env w)) = fs (snd (make_install_dir env w))"
    and "stdout_encodes env LocalBinaryNotFound \<Longrightarrow>
           fst (download_whisper_binary env w) = None
           \<and> stdout (snd (download_whisper_binary env w)) =
               stdout w @ [Downloading (lower (platform_system env)),
                           LocalBinaryNotFound, BuildStandaloneHint]"
proof -
  let ?s = "lower (platform_system env)"
  let ?w1 = "snd (make_install_dir env w)"
  let ?w2 = "?w1\<lparr>stdout := stdout ?w1 @ [Downloading ?s]\<rparr>"
  let ?w3 = "called (Exists (local_binary env bn)) ?w2"
  have "\<not> path_exists (fs ?w2) (local_binary env bn)"
    using absent by simp
  from try_block_absent [OF lu this]
  have tb: "try_block env ?s bn (install_dir env @ [en]) ?w2 =
              and_then (print env LocalBinaryNotFound ?w3) (\<lambda>w2. print env BuildStandaloneHint w2)" .
  have d: "download_whisper_binary env w =
          except_clause env (and_then (print env LocalBinaryNotFound ?w3)
                               (\<lambda>w2. print env BuildStandaloneHint w2))"
    unfolding download_supported [OF sel mk] using enc
    by (simp add: print_ok and_then_simps tb)
  have c: "calls (snd (and_then (print env LocalBinaryNotFound ?w3)
                          (\<lambda>w2. print env BuildStandaloneHint w2))) =
             calls w @ [Mkdir (install_dir env), Exists (local_binary env bn)]"
    by (simp add: and_then_def print_def called_def make_install_dir_calls)
  have f: "fs (snd (and_then (print env LocalBinaryNotFound ?w3)
                          (\<lambda>w2. print env BuildStandaloneHint w2))) =
             fs (snd (make_install_dir env w))"
    by (simp add: and_then_def print_def called_def)
  show "calls (snd (download_whisper_binary env w)) =
           calls w @ [Mkdir (install_dir env), Exists (local_binary env bn)]"
    by (simp only: d except_clause_frame c)
  show "fs (snd (download_whisper_binary env w)) = fs (snd (make_install_dir env w))"
    by (simp only: d except_clause_frame f)
  show "fst (download_whisper_binary env w) = None
           \<and> stdout (snd (download_whisper_binary env w)) =
               stdout w @ [Downloading (lower (platform_system env)),
                           LocalBinaryNotFound, BuildStandaloneHint]"
    if "stdout_encodes env LocalBinaryNotFound"
    using that
    by (simp add: d print_ok and_then_simps except_clause_def called_def make_install_dir_stdout)
qed

lemma download_present:
  assumes sel: "select_binary (lower (platform_system env)) = Some (bn, en)"
    and mk: "fst (make_install_dir env w) = None"
    and lu: "exists_fault env = None"
    and present: "node_at (fs w) (local_binary env bn) = Some (File c m)"
    and target: "node_at (fs w) (install_dir env @ [en]) \<noteq> Some Dir"
    and copy_ok: "copy_fault env = None"
    and chmod_ok: "chmod_fault env = None"
    and enc: "stdout_encodes env (Downloading (lower (platform_system env)))"
      "stdout_encodes env (CopiedLocalBinary (install_dir env @ [en]))"
      "stdout_encodes env InstalledSuccessfully"
      "stdout_encodes env YouCanNowUse"
  shows "fst (download_whisper_binary env w) = None
         \<and> node_at (fs (snd (download_whisper_binary env w))) (install_dir env @ [en]) =
             Some (File c (if lower (platform_system env) = ''windows'' then m else 493))
         \<and> calls (snd (download_whisper_binary env w)) =
             calls w @ [Mkdir (install_dir env), Exists (local_binary env bn),
                        Copy2 (local_binary env bn) (install_dir env @ [en])]
               @ (if lower (platform_system env) = ''windows'' then []
                  else [Chmod (install_dir env @ [en]) 493])
         \<and> stdout (snd (download_whisper_binary env w)) =
             stdout w @ [Downloading (lower (platform_system env)),
                         CopiedLocalBinary (install_dir env @ [en]),
                         InstalledSuccessfully, YouCanNowUse]"
proof -
  let ?src = "local_binary env bn" and ?dst = "install_dir env @ [en]"
  let ?w1 = "snd (make_install_dir env w)"
  have c: "calls ?w1 = calls w @ [Mkdir (install_dir env)]"
    by (rule make_install_dir_calls)
  have s: "stdout ?w1 = stdout w"
    by (rule make_install_dir_stdout)
  have src_ne: "?src \<noteq> []" by (simp add: local_binary_def)
  from present src_ne have "fs w ?src = Some (File c m)" by (simp add: node_at_def)
  from make_install_dir_keeps [OF mk this] src_ne
  have src: "node_at (fs ?w1) ?src = Some (File c m)" by (simp add: node_at_def)
  from make_install_dir_target [OF mk, of en] target
  have dst: "node_at (fs ?w1) ?dst \<noteq> Some Dir" by (simp add: node_at_def)
  from make_install_dir_is_dir [OF mk]
  have parent: "node_at (fs ?w1) (install_dir env) = Some Dir" by simp
  have differ: "?dst \<noteq> ?src" using artifact_is_not_target [OF sel, of env] by simp
  have copied: "copy2 ?src ?dst (fs ?w1) = Inr ((fs ?w1)(?dst \<mapsto> File c m))"
    using src dst parent differ by (simp add: copy2_def copy2_target_def)
  have chmodded:
    "chmod ?dst 493 ((fs ?w1)(?dst \<mapsto> File c m)) = Inr ((fs ?w1)(?dst \<mapsto> File c 493))"
    by (simp add: chmod_def node_at_def)
  have ex: "path_exists (fs ?w1) ?src" using src by (simp add: path_exists_def)
  show ?thesis
    unfolding download_supported [OF sel mk]
    using c s ex copied chmodded copy_ok chmod_ok lu enc
    by (simp add: try_block_def look_up_def call_copy2_def syscall_def called_def print_ok
          and_then_simps except_clause_def Let_def node_at_def)
qed

text \<open>On an unsupported platform everything hangs on the first print.\<close>

lemma download_unsupported_result:
  assumes "select_binary (lower (platform_system env)) = None"
  shows "download_whisper_binary env w =
           (if stdout_encodes env (UnsupportedPlatform (lower (platform_system env)))
            then (None, w\<lparr>stdout := stdout w
                     @ [UnsupportedPlatform (lower (platform_system env)), UseNpmInstead]\<rparr>)
            else (Some UnicodeEncodeError, w))"
  by (simp add: download_unsupported [OF assms] print_def and_then_def)

lemma machine_unused_parts:
  "install_dir (env\<lparr>platform_machine := m\<rparr>) = install_dir env"
  "local_binary (env\<lparr>platform_machine := m\<rparr>) bn = local_binary env bn"
  "make_install_dir (env\<lparr>platform_machine := m\<rparr>) w = make_install_dir env w"
  "print (env\<lparr>platform_machine := m\<rparr>) l w = print env l w"
  "look_up (env\<lparr>platform_machine := m\<rparr>) p w = look_up env p w"
  "call_copy2 (env\<lparr>platform_machine := m\<rparr>) src p w = call_copy2 env src p w"
  by (simp_all add: install_dir_def local_binary_def make_install_dir_def print_def
        look_up_def call_copy2_def Let_def cong: sum.case_cong option.case_cong)

lemma machine_unused_blocks:
  "try_block (env\<lparr>platform_machine := m\<rparr>) s bn p w = try_block env s bn p w"
  "except_clause (env\<lparr>platform_machine := m\<rparr>) r = except_clause env r"
  by (simp_all add: try_block_def except_clause_def machine_unused_parts Let_def
        cong: prod.case_cong sum.case_cong option.case_cong if_cong)

lemma machine_unused:
  "download_whisper_binary (env\<lparr>platform_machine := m\<rparr>) w = download_whisper_binary env w"
  by (simp add: download_whisper_binary_def machine_unused_parts machine_unused_blocks Let_def
        cong: option.case_cong prod.case_cong)

text \<open>
  An exception that leaves the method was raised by the \<^verbatim>\<open>mkdir\<close> of line 55 or is the
  \<^verbatim>\<open>UnicodeEncodeError\<close> of a print outside the \<^verbatim>\<open>try\<close> block (lines 49, 59 and 83).
\<close>

lemma what_leaves_the_method:
  assumes "fst (download_whisper_binary env w) = Some e"
  shows "fst (make_install_dir env w) = Some e \<or> e = UnicodeEncodeError"
proof (cases "select_binary (lower (platform_system env))")
  case None
  with assms show ?thesis
    by (simp add: download_unsupported_result split: if_splits)
next
  case (Some names)
  obtain bn en where names: "names = (bn, en)" by (cases names)
  with Some have sel: "select_binary (lower (platform_system env)) = Some (bn, en)" by simp
  show ?thesis
  proof (cases "fst (make_install_dir env w)")
    case (Some e')
    from download_mkdir_raises [OF sel Some] assms show ?thesis
      using Some by simp
  next
    case None
    obtain r3 w3 where tb: "try_block env (lower (platform_system env)) bn (install_dir env @ [en])
        ((snd (make_install_dir env w))\<lparr>stdout := stdout (snd (make_install_dir env w))
           @ [Downloading (lower (platform_system env))]\<rparr>) = (r3, w3)"
      by (meson surj_pair)
    from assms show ?thesis
      unfolding download_supported [OF sel None]
      by (cases r3) (auto simp: print_def and_then_def except_clause_def tb split: if_splits)
  qed
qed

subsection \<open>The example environments, evaluated\<close>

lemmas eval_defs = download_whisper_binary_def try_block_def except_clause_def
  make_install_dir_def syscall_def look_up_def call_copy2_def copy2_target_def
  called_def print_def and_then_def Let_def install_dir_def local_binary_def select_binary_def
  lower_def lower_char_def path_exists_def node_at_def
  os_mkdir_def mkdir_exist_ok_def mkdir_parents.simps copy2_def chmod_def
  install_on_def linux_install_def freebsd_install_def unicode_stdout_def narrow_stdout_def
  start_def site_packages_def built_repo_def built_all_def installed_before_def
  bin_not_writable_def beside_launcher_def not_executable_def

lemma start_simps:
  "fs (start d) = d" "calls (start d) = []" "stdout (start d) = []"
  by (simp_all add: start_def)

lemma install_on_selected:
  "select_binary (lower (platform_system (install_on ''Windows'' fm fc fp enc))) =
     Some (''whisper-win.exe'', ''whisper.exe'')"
  "select_binary (lower (platform_system (install_on ''Darwin'' fm fc fp enc))) =
     Some (''whisper-macos'', ''whisper'')"
  "select_binary (lower (platform_system (install_on ''Linux'' fm fc fp enc))) =
     Some (''whisper-linux'', ''whisper'')"
  "select_binary (lower (platform_system (install_on ''FreeBSD'' fm fc fp enc))) = None"
  by (simp_all add: install_on_def lower_def lower_char_def select_binary_def)

lemma install_on_system:
  "lower (platform_system (install_on ''Windows'' fm fc fp enc)) = ''windows''"
  "lower (platform_system (install_on ''Darwin'' fm fc fp enc)) = ''darwin''"
  "lower (platform_system (install_on ''Linux'' fm fc fp enc)) = ''linux''"
  "lower (platform_system (install_on ''FreeBSD'' fm fc fp enc)) = ''freebsd''"
  by (simp_all add: install_on_def lower_def lower_char_def)

lemma install_on_paths:
  "install_dir (install_on s fm fc fp enc) = [''site'', ''whisper_cli'', ''bin'']"
  "local_binary (install_on s fm fc fp enc) bn = [''repo'', ''dist'', bn]"
  by (simp_all add: install_dir_def local_binary_def install_on_def)

lemma install_on_faults:
  "mkdir_fault (install_on s fm fc fp enc) = fm"
  "exists_fault (install_on s fm fc fp enc) = None"
  "copy_fault (install_on s fm fc fp enc) = fc"
  "chmod_fault (install_on s fm fc fp enc) = fp"
  "stdout_encodes (install_on s fm fc fp enc) = enc"
  by (simp_all add: install_on_def)

lemma linux_selected:
  "select_binary (lower (platform_system (linux_install fm fc fp))) =
     Some (''whisper-linux'', ''whisper'')"
  by (simp add: linux_install_def install_on_selected)

lemma linux_system: "lower (platform_system (linux_install fm fc fp)) = ''linux''"
  by (simp add: linux_install_def install_on_system)

lemma linux_paths:
  "install_dir (linux_install fm fc fp) = [''site'', ''whisper_cli'', ''bin'']"
  "local_binary (linux_install fm fc fp) bn = [''repo'', ''dist'', bn]"
  by (simp_all add: linux_install_def install_on_paths)

lemma linux_faults:
  "mkdir_fault (linux_install fm fc fp) = fm"
  "exists_fault (linux_install fm fc fp) = None"
  "copy_fault (linux_install fm fc fp) = fc"
  "chmod_fault (linux_install fm fc fp) = fp"
  "stdout_encodes (linux_install fm fc fp) m"
  by (simp_all add: linux_install_def install_on_faults unicode_stdout_def)

lemma mkdir_bin_fresh:
  "mkdir_parents [''site'', ''whisper_cli'', ''bin''] site_packages =
     Inr (site_packages([''site'', ''whisper_cli'', ''bin''] \<mapsto> Dir))"
  by (simp add: mkdir_parents.simps os_mkdir_def node_at_def site_packages_def)

lemma mkdir_fresh:
  "make_install_dir (install_on s None fc fp enc) (start site_packages) =
     (None, \<lparr>fs = site_packages([''site'', ''whisper_cli'', ''bin''] \<mapsto> Dir),
             calls = [Mkdir [''site'', ''whisper_cli'', ''bin'']], stdout = []\<rparr>)"
  by (simp add: make_install_dir_def syscall_def called_def Let_def install_dir_def start_def
        mkdir_bin_fresh install_on_def)

lemma mkdir_built:
  "fst (make_install_dir (install_on s None fc fp enc) (start built_repo)) = None"
  "fst (make_install_dir (install_on s None fc fp enc) (start built_all)) = None"
  "fst (make_install_dir (install_on s None fc fp enc) (start installed_before)) = None"
  by (simp_all add: eval_defs)


section \<open>The installer\<close>




text \<open>
  C10. The machine architecture is read and never used: two runs that differ only in
  \<^verbatim>\<open>platform.machine()\<close> select the same names, raise the same exception or none, and
  leave the same file system, the same calls and the same output.
\<close>

theorem installer_ignores_machine:
  "download_whisper_binary (env\<lparr>platform_machine := m1\<rparr>) w =
   download_whisper_binary (env\<lparr>platform_machine := m2\<rparr>) w"
  by (simp add: machine_unused)

text \<open>
  C3 does not hold of the code. On Linux, with the artifact built, let the \<^verbatim>\<open>mkdir\<close>
  of line 55 raise \<^verbatim>\<open>PermissionError\<close>: the call stands before the \<^verbatim>\<open>try\<close>, so the
  exception leaves \<^verbatim>\<open>download_whisper_binary\<close>, and nothing has been printed.
\<close>

theorem installer_mkdir_failure_propagates:
  "fst (download_whisper_binary (linux_install (Some PermissionError) None None)
          (start built_repo)) = Some PermissionError
   \<and> stdout (snd (download_whisper_binary (linux_install (Some PermissionError) None None)
                    (start built_repo))) = []"
  by (simp add: eval_defs)

text \<open>
  C9, as stated, fails: on Linux, with no artifact and the directory \<^verbatim>\<open>bin\<close> left by an
  earlier installation, the supported branch calls \<^verbatim>\<open>mkdir\<close> and looks for the
  artifact, returns normally, and has written nothing: the file system after the call
  is the file system before it.
\<close>

theorem installer_makes_bin_dir_first_counterexample:
  "select_binary (lower (platform_system (linux_install None None None))) =
     Some (''whisper-linux'', ''whisper'')
   \<and> fst (download_whisper_binary (linux_install None None None) (start installed_before)) = None
   \<and> calls (snd (download_whisper_binary (linux_install None None None)
                   (start installed_before))) =
       [Mkdir [''site'', ''whisper_cli'', ''bin''], Exists [''repo'', ''dist'', ''whisper-linux'']]
   \<and> fs (snd (download_whisper_binary (linux_install None None None) (start installed_before)))
       = fs (start installed_before)"
proof -
  let ?env = "linux_install None None None" and ?w = "start installed_before"
  have sel: "select_binary (lower (platform_system ?env)) = Some (''whisper-linux'', ''whisper'')"
    by (rule linux_selected)
  have mk: "fst (make_install_dir ?env ?w) = None"
    by (simp add: linux_install_def mkdir_built)
  have enc: "stdout_encodes ?env m" for m
    by (rule linux_faults)
  have lu: "exists_fault ?env = None"
    by (rule linux_faults)
  have there: "node_at (fs ?w) (install_dir ?env) = Some Dir"
    by (simp add: linux_paths start_simps node_at_def installed_before_def)
  with make_install_dir_unchanged [OF mk] have same: "fs (snd (make_install_dir ?env ?w)) = fs ?w"
    by simp
  have absent: "\<not> path_exists (fs (snd (make_install_dir ?env ?w)))
                    (local_binary ?env ''whisper-linux'')"
    unfolding same
    by (simp add: linux_paths start_simps path_exists_def node_at_def
          installed_before_def site_packages_def)
  from download_absent [OF sel mk enc lu absent] enc same sel
  show ?thesis
    by (simp add: linux_paths start_simps)
qed

text \<open>
  C9, amended. The only run that makes no call to the file system is the one on an
  unsupported platform. On a supported platform the first call is the \<^verbatim>\<open>mkdir\<close> of the
  install directory, with its parents and with \<^verbatim>\<open>exist_ok\<close>; when it succeeds, the
  install directory is a directory when the method ends, whatever happens after, and
  once line 59 has printed, the second call is the look-up of the artifact. When the
  look-up finds no artifact there is no further call and the file system is the one
  \<^verbatim>\<open>mkdir\<close> left: the file system before the call if the install directory was there
  already, one with a new install directory if it was not.
\<close>

theorem installer_makes_bin_dir_first:
  "((calls (snd (download_whisper_binary env w)) = calls w)
      = (select_binary (lower (platform_system env)) = None))
   \<and> (select_binary (lower (platform_system env)) = Some (bn, en) \<longrightarrow>
        prefix (calls w @ [Mkdir (install_dir env)])
          (calls (snd (download_whisper_binary env w)))
        \<and> (fst (make_install_dir env w) = None \<longrightarrow>
             node_at (fs (snd (download_whisper_binary env w))) (install_dir env) = Some Dir
             \<and> (stdout_encodes env (Downloading (lower (platform_system env))) \<longrightarrow>
                  prefix (calls w @ [Mkdir (install_dir env), Exists (local_binary env bn)])
                    (calls (snd (download_whisper_binary env w)))
                  \<and> (exists_fault env = None
                       \<and> \<not> path_exists (fs (snd (make_install_dir env w)))
                             (local_binary env bn) \<longrightarrow>
                       calls (snd (download_whisper_binary env w)) =
                         calls w @ [Mkdir (install_dir env), Exists (local_binary env bn)]
                       \<and> fs (snd (download_whisper_binary env w)) =
                           fs (snd (make_install_dir env w))
                       \<and> ((fs (snd (download_whisper_binary env w)) = fs w)
                            = (node_at (fs w) (install_dir env) = Some Dir))))))"
  using download_calls_unsupported [of env w] download_calls_first [of env bn en w]
    download_calls_second [of env bn en w] download_keeps_dir [of env bn en w]
    download_absent(1,2) [of env bn en w] make_install_dir_unchanged [of env w]
  by simp

theorem installer_makes_bin_dir_first_witness:
  "select_binary (lower (platform_system (linux_install None None None))) =
     Some (''whisper-linux'', ''whisper'')
   \<and> fst (make_install_dir (linux_install None None None) (start site_packages)) = None
   \<and> stdout_encodes (linux_install None None None) (Downloading ''linux'')
   \<and> exists_fault (linux_install None None None) = None
   \<and> \<not> path_exists (fs (snd (make_install_dir (linux_install None None None)
                                 (start site_packages))))
         (local_binary (linux_install None None None) ''whisper-linux'')
   \<and> node_at (fs (start site_packages)) [''site'', ''whisper_cli'', ''bin''] = None
   \<and> node_at (fs (snd (download_whisper_binary (linux_install None None None)
                          (start site_packages))))
       [''site'', ''whisper_cli'', ''bin''] = Some Dir
   \<and> calls (snd (download_whisper_binary (linux_install None None None) (start site_packages))) =
       [Mkdir [''site'', ''whisper_cli'', ''bin''], Exists [''repo'', ''dist'', ''whisper-linux'']]
   \<and> fs (snd (download_whisper_binary (linux_install None None None) (start site_packages)))
       \<noteq> fs (start site_packages)"
proof -
  let ?env = "linux_install None None None" and ?w = "start site_packages"
  have sel: "select_binary (lower (platform_system ?env)) = Some (''whisper-linux'', ''whisper'')"
    by (rule linux_selected)
  have mk: "fst (make_install_dir ?env ?w) = None"
    by (simp add: linux_install_def mkdir_fresh)
  have enc: "stdout_encodes ?env (Downloading (lower (platform_system ?env)))"
    by (rule linux_faults)
  have lu: "exists_fault ?env = None"
    by (rule linux_faults)
  have absent: "\<not> path_exists (fs (snd (make_install_dir ?env ?w)))
                    (local_binary ?env ''whisper-linux'')"
    by (simp add: linux_install_def mkdir_fresh install_on_paths path_exists_def node_at_def)
       (simp add: site_packages_def)
  have before: "node_at (fs ?w) [''site'', ''whisper_cli'', ''bin''] = None"
    by (simp add: start_def node_at_def site_packages_def)
  from make_install_dir_is_dir [OF mk]
  have made: "node_at (fs (snd (make_install_dir ?env ?w))) [''site'', ''whisper_cli'', ''bin'']
                = Some Dir"
    by (simp add: linux_paths)
  from make_install_dir_unchanged [OF mk] before
  have changed: "fs (snd (make_install_dir ?env ?w)) \<noteq> fs ?w"
    by (simp add: linux_paths)
  from installer_makes_bin_dir_first [of ?env ?w "''whisper-linux''" "''whisper''"]
    sel mk enc lu absent before made changed
  show ?thesis
    by (simp add: linux_paths linux_system start_simps(2))
qed

text \<open>
  C7, as stated, fails: on Linux, with no artifact and a \<^verbatim>\<open>bin/whisper\<close> left by an
  earlier installation, the method returns normally and the target path still exists
  after the call.
\<close>

theorem installer_absent_artifact_counterexample:
  "select_binary (lower (platform_system (linux_install None None None))) =
     Some (''whisper-linux'', ''whisper'')
   \<and> \<not> path_exists (fs (start installed_before))
         (local_binary (linux_install None None None) ''whisper-linux'')
   \<and> fst (download_whisper_binary (linux_install None None None) (start installed_before)) = None
   \<and> path_exists
       (fs (snd (download_whisper_binary (linux_install None None None) (start installed_before))))
       (install_dir (linux_install None None None) @ [''whisper''])"
  by (simp add: eval_defs)

text \<open>
  C7, amended. On a supported platform, when the \<^verbatim>\<open>mkdir\<close> of line 55 succeeds, the
  standard output can encode the lines of lines 59 and 71, and the look-up of line 67
  finds no artifact, the method returns without raising, its only calls are that
  \<^verbatim>\<open>mkdir\<close> and that look-up (no copy, no \<^verbatim>\<open>chmod\<close>), it prints the two lines that
  name the build step, and the target path holds after the call what it held before:
  it does not exist after the call if it did not exist before.
\<close>

theorem installer_absent_artifact:
  assumes sel: "select_binary (lower (platform_system env)) = Some (bn, en)"
    and mk: "fst (make_install_dir env w) = None"
    and enc: "stdout_encodes env (Downloading (lower (platform_system env)))"
      "stdout_encodes env LocalBinaryNotFound"
    and lu: "exists_fault env = None"
    and absent: "\<not> path_exists (fs (snd (make_install_dir env w))) (local_binary env bn)"
  shows "fst (download_whisper_binary env w) = None
         \<and> calls (snd (download_whisper_binary env w)) =
             calls w @ [Mkdir (install_dir env), Exists (local_binary env bn)]
         \<and> stdout (snd (download_whisper_binary env w)) =
             stdout w @ [Downloading (lower (platform_system env)),
                         LocalBinaryNotFound, BuildStandaloneHint]
         \<and> node_at (fs (snd (download_whisper_binary env w))) (install_dir env @ [en]) =
             node_at (fs w) (install_dir env @ [en])"
  using download_absent [OF sel mk enc(1) lu absent] enc(2)
    make_install_dir_target [OF mk, of en]
  by (simp add: node_at_def)

theorem installer_absent_artifact_witness:
  "select_binary (lower (platform_system (linux_install None None None))) =
     Some (''whisper-linux'', ''whisper'')
   \<and> fst (make_install_dir (linux_install None None None) (start site_packages)) = None
   \<and> stdout_encodes (linux_install None None None) (Downloading ''linux'')
   \<and> stdout_encodes (linux_install None None None) LocalBinaryNotFound
   \<and> exists_fault (linux_install None None None) = None
   \<and> \<not> path_exists (fs (snd (make_install_dir (linux_install None None None)
                                 (start site_packages))))
         (local_binary (linux_install None None None) ''whisper-linux'')
   \<and> fst (download_whisper_binary (linux_install None None None) (start site_packages)) = None
   \<and> stdout (snd (download_whisper_binary (linux_install None None None)
                    (start site_packages))) =
       [Downloading ''linux'', LocalBinaryNotFound, BuildStandaloneHint]
   \<and> node_at (fs (snd (download_whisper_binary (linux_install None None None)
                          (start site_packages))))
       [''site'', ''whisper_cli'', ''bin'', ''whisper''] = None"
proof -
  let ?env = "linux_install None None None" and ?w = "start site_packages"
  have sel: "select_binary (lower (platform_system ?env)) = Some (''whisper-linux'', ''whisper'')"
    by (rule linux_selected)
  have mk: "fst (make_install_dir ?env ?w) = None"
    by (simp add: linux_install_def mkdir_fresh)
  have enc: "stdout_encodes ?env (Downloading (lower (platform_system ?env)))"
    "stdout_encodes ?env LocalBinaryNotFound"
    by (rule linux_faults)+
  have lu: "exists_fault ?env = None"
    by (rule linux_faults)
  have absent: "\<not> path_exists (fs (snd (make_install_dir ?env ?w)))
                    (local_binary ?env ''whisper-linux'')"
    by (simp add: linux_install_def mkdir_fresh install_on_paths path_exists_def node_at_def)
       (simp add: site_packages_def)
  have before: "node_at (fs ?w) [''site'', ''whisper_cli'', ''bin'', ''whisper''] = None"
    by (simp add: start_def node_at_def site_packages_def)
  from installer_absent_artifact [OF sel mk enc lu absent] sel mk enc lu absent before
  show ?thesis
    by (simp add: linux_paths linux_system start_simps)
qed

text \<open>
  C8, as stated, fails: on Linux, with the artifact present and the directory \<^verbatim>\<open>bin\<close>
  already there but not writable, \<^verbatim>\<open>shutil.copy2\<close> raises \<^verbatim>\<open>PermissionError\<close> before
  it has written anything. The \<^verbatim>\<open>except\<close> clause catches it, the method prints the
  failure and returns, and the target path does not exist after the call.
\<close>

theorem installer_present_artifact_counterexample:
  "select_binary
     (lower (platform_system (linux_install None (Some (Refused PermissionError)) None))) =
     Some (''whisper-linux'', ''whisper'')
   \<and> node_at (fs (start bin_not_writable))
       (local_binary (linux_install None (Some (Refused PermissionError)) None)
          ''whisper-linux'') =
       Some (File [127, 69, 76, 70] 420)
   \<and> fst (download_whisper_binary (linux_install None (Some (Refused PermissionError)) None)
            (start bin_not_writable)) = None
   \<and> \<not> path_exists
         (fs (snd (download_whisper_binary
                     (linux_install None (Some (Refused PermissionError)) None)
                     (start bin_not_writable))))
         (install_dir (linux_install None (Some (Refused PermissionError)) None) @ [''whisper''])
   \<and> stdout (snd (download_whisper_binary
                    (linux_install None (Some (Refused PermissionError)) None)
                    (start bin_not_writable))) =
       [Downloading ''linux'', FailedToDownload PermissionError, InstallManually]"
  by (simp add: eval_defs)

text \<open>
  C8, amended. On a supported platform, when the artifact is a regular file with
  contents \<open>c\<close> and mode \<open>m\<close>, the target path is not a directory, the \<^verbatim>\<open>mkdir\<close>, the
  look-up, the copy and the \<^verbatim>\<open>chmod\<close> succeed, and the standard output can encode the
  four lines the run prints, the method returns without raising and the target path
  is a regular file with the contents \<open>c\<close>. On Windows its mode is \<open>m\<close>, that of the
  artifact, and no \<^verbatim>\<open>chmod\<close> is called; on the other platforms \<^verbatim>\<open>chmod\<close> is called and
  the mode is \<^verbatim>\<open>0o755\<close> (493), which holds the execute bits \<^verbatim>\<open>0o111\<close> (73) of owner,
  group and other.
\<close>

theorem installer_present_artifact:
  assumes sel: "select_binary (lower (platform_system env)) = Some (bn, en)"
    and mk: "fst (make_install_dir env w) = None"
    and lu: "exists_fault env = None"
    and present: "node_at (fs w) (local_binary env bn) = Some (File c m)"
    and target: "node_at (fs w) (install_dir env @ [en]) \<noteq> Some Dir"
    and copy_ok: "copy_fault env = None"
    and chmod_ok: "chmod_fault env = None"
    and enc: "stdout_encodes env (Downloading (lower (platform_system env)))"
      "stdout_encodes env (CopiedLocalBinary (install_dir env @ [en]))"
      "stdout_encodes env InstalledSuccessfully"
      "stdout_encodes env YouCanNowUse"
  shows "fst (download_whisper_binary env w) = None
         \<and> node_at (fs (snd (download_whisper_binary env w))) (install_dir env @ [en]) =
             Some (File c (if lower (platform_system env) = ''windows'' then m else 493))
         \<and> calls (snd (download_whisper_binary env w)) =
             calls w @ [Mkdir (install_dir env), Exists (local_binary env bn),
                        Copy2 (local_binary env bn) (install_dir env @ [en])]
               @ (if lower (platform_system env) = ''windows'' then []
                  else [Chmod (install_dir env @ [en]) 493])
         \<and> stdout (snd (download_whisper_binary env w)) =
             stdout w @ [Downloading (lower (platform_system env)),
                         CopiedLocalBinary (install_dir env @ [en]),
                         InstalledSuccessfully, YouCanNowUse]
         \<and> (493 :: mode) AND 73 = 73"
  using download_present [OF sel mk lu present target copy_ok chmod_ok enc] mode_755_executable
  by simp

theorem installer_present_artifact_witness:
  "select_binary (lower (platform_system (linux_install None None None))) =
     Some (''whisper-linux'', ''whisper'')
   \<and> fst (make_install_dir (linux_install None None None) (start built_repo)) = None
   \<and> exists_fault (linux_install None None None) = None
   \<and> node_at (fs (start built_repo)) (local_binary (linux_install None None None) ''whisper-linux'')
       = Some (File [127, 69, 76, 70] 420)
   \<and> node_at (fs (start built_repo)) (install_dir (linux_install None None None) @ [''whisper''])
       \<noteq> Some Dir
   \<and> copy_fault (linux_install None None None) = None
   \<and> chmod_fault (linux_install None None None) = None
   \<and> stdout_encodes (linux_install None None None) (Downloading ''linux'')
   \<and> stdout_encodes (linux_install None None None)
       (CopiedLocalBinary [''site'', ''whisper_cli'', ''bin'', ''whisper''])
   \<and> stdout_encodes (linux_install None None None) InstalledSuccessfully
   \<and> stdout_encodes (linux_install None None None) YouCanNowUse
   \<and> fst (download_whisper_binary (linux_install None None None) (start built_repo)) = None
   \<and> node_at (fs (snd (download_whisper_binary (linux_install None None None)
                          (start built_repo))))
       [''site'', ''whisper_cli'', ''bin'', ''whisper''] = Some (File [127, 69, 76, 70] 493)"
proof -
  let ?env = "linux_install None None None" and ?w = "start built_repo"
  have sel: "select_binary (lower (platform_system ?env)) = Some (''whisper-linux'', ''whisper'')"
    by (rule linux_selected)
  have mk: "fst (make_install_dir ?env ?w) = None"
    by (simp add: linux_install_def mkdir_built)
  have lu: "exists_fault ?env = None"
    by (rule linux_faults)
  have present: "node_at (fs ?w) (local_binary ?env ''whisper-linux'')
                   = Some (File [127, 69, 76, 70] 420)"
    by (simp add: linux_paths start_simps node_at_def built_repo_def)
  have target: "node_at (fs ?w) (install_dir ?env @ [''whisper'']) \<noteq> Some Dir"
    by (simp add: linux_paths start_simps node_at_def built_repo_def site_packages_def)
  have copy_ok: "copy_fault ?env = None" and chmod_ok: "chmod_fault ?env = None"
    by (rule linux_faults)+
  have enc: "stdout_encodes ?env (Downloading (lower (platform_system ?env)))"
    "stdout_encodes ?env (CopiedLocalBinary (install_dir ?env @ [''whisper'']))"
    "stdout_encodes ?env InstalledSuccessfully"
    "stdout_encodes ?env YouCanNowUse"
    by (rule linux_faults)+
  from installer_present_artifact [OF sel mk lu present target copy_ok chmod_ok enc]
    sel mk lu present target copy_ok chmod_ok enc
  show ?thesis
    by (simp add: linux_paths linux_system)
qed

section \<open>Installer and launcher together\<close>

text \<open>
  Where the launcher of an installed package looks is never where the installer puts
  the executable: the installer's path has the component \<^verbatim>\<open>bin\<close>, the launcher's has
  not.
\<close>

lemma launcher_path_is_not_target:
  assumes "module_file lenv = install_lib env @ [''whisper_cli'', ''cli.py'']"
  shows "get_whisper_cli_path lenv \<noteq> install_dir env @ [en]"
  using assms by (simp add: get_whisper_cli_path_def install_dir_def Let_def butlast_append)

text \<open>
  C1 does not hold of the code. Install on Linux from a checkout with the artifact
  built: the method returns normally and \<^verbatim>\<open>/site/whisper_cli/bin/whisper\<close> is the
  artifact, mode \<^verbatim>\<open>0o755\<close>. The launcher \<^verbatim>\<open>/site/whisper_cli/cli.py\<close>, run on the file
  system the installer left, resolves \<^verbatim>\<open>/site/whisper_cli/whisper\<close>, without \<^verbatim>\<open>bin\<close>,
  finds nothing there, prints the diagnostic and exits with status 1.
\<close>

theorem launcher_misses_installed_binary:
  "fst (download_whisper_binary (linux_install None None None) (start built_repo)) = None
   \<and> node_at (fs (snd (download_whisper_binary (linux_install None None None) (start built_repo))))
       [''site'', ''whisper_cli'', ''bin'', ''whisper''] = Some (File [127, 69, 76, 70] 493)
   \<and> get_whisper_cli_path
       (linux_launch
          (fs (snd (download_whisper_binary (linux_install None None None) (start built_repo)))) 0)
       = [''site'', ''whisper_cli'', ''whisper'']
   \<and> printed
       (main (linux_launch
          (fs (snd (download_whisper_binary (linux_install None None None) (start built_repo)))) 0))
       = [ExecutableNotFound]
   \<and> run_calls
       (main (linux_launch
          (fs (snd (download_whisper_binary (linux_install None None None) (start built_repo)))) 0))
       = []
   \<and> exit_status (outcome
       (main (linux_launch
          (fs (snd (download_whisper_binary (linux_install None None None) (start built_repo)))) 0)))
       = 1"
  by (simp add: eval_defs main_def get_whisper_cli_path_def linux_launch_def)

end
